theory Spec2Isabelle
  imports Main "HOL-Library.Word" "HOL-Library.Sublist"
begin

section \<open>Values of the upload function\<close>

text \<open>
  The program is a Lambda handler in two variants (both files are \<^verbatim>\<open>main.go\<close>): the
  first compresses the request body and prefixes a fixed key before the upload, the
  second uploads the body as it is. A Go byte is an 8-bit word, a \<^verbatim>\<open>[]byte\<close> a list
  of them; a Go string is a sequence of bytes, here a \<open>string\<close>. A Go \<^verbatim>\<open>error\<close> is
  represented by its message (what \<^verbatim>\<open>Error()\<close> returns); the nil error is \<open>None\<close>.
\<close>

type_synonym byte = "8 word"

type_synonym bytes = "byte list"

type_synonym error = string

text \<open>A reading of the wall clock (\<^verbatim>\<open>time.Time\<close>), as nanoseconds since the epoch.\<close>

type_synonym Time = int

text \<open>The conversion \<^verbatim>\<open>[]byte(s)\<close> of a string.\<close>

definition bytes_of_string :: "string \<Rightarrow> bytes" where
  "bytes_of_string s = map of_char s"

text \<open>\<^verbatim>\<open>aws.Config\<close> (only the region matters here), \<^verbatim>\<open>s3.Client\<close> and the struct
  \<^verbatim>\<open>BucketBasics\<close> of the source.\<close>

record aws_Config =
  Region :: string

record s3_Client =
  options :: aws_Config

record BucketBasics =
  S3Client :: s3_Client

definition NewFromConfig :: "aws_Config \<Rightarrow> s3_Client" where
  "NewFromConfig cfg = \<lparr>options = cfg\<rparr>"

text \<open>
  A request sent through the S3 client. \<open>S3_CreateBucket\<close> carries the fields of
  \<^verbatim>\<open>s3.CreateBucketInput\<close> that the source sets (\<^verbatim>\<open>Bucket\<close> and
  \<^verbatim>\<open>CreateBucketConfiguration.LocationConstraint\<close>), \<open>S3_PutObject\<close> those of
  \<^verbatim>\<open>s3.PutObjectInput\<close> (\<^verbatim>\<open>Bucket\<close>, \<^verbatim>\<open>Key\<close>, and the bytes read from \<^verbatim>\<open>Body\<close>).
  The client also offers the deletions with which a program could undo its work.
\<close>

datatype s3_call =
    S3_CreateBucket string string
  | S3_PutObject string string bytes
  | S3_DeleteBucket string
  | S3_DeleteObject string string

fun call_Bucket :: "s3_call \<Rightarrow> string" where
  "call_Bucket (S3_CreateBucket b r) = b"
| "call_Bucket (S3_PutObject b k d) = b"
| "call_Bucket (S3_DeleteBucket b) = b"
| "call_Bucket (S3_DeleteObject b k) = b"

fun is_CreateBucket :: "s3_call \<Rightarrow> bool" where
  "is_CreateBucket (S3_CreateBucket b r) = True"
| "is_CreateBucket c = False"

fun is_PutObject :: "s3_call \<Rightarrow> bool" where
  "is_PutObject (S3_PutObject b k d) = True"
| "is_PutObject c = False"

fun is_Delete :: "s3_call \<Rightarrow> bool" where
  "is_Delete (S3_DeleteBucket b) = True"
| "is_Delete (S3_DeleteObject b k) = True"
| "is_Delete c = False"

text \<open>\<^verbatim>\<open>events.APIGatewayProxyRequest\<close>: the handler reads only its \<^verbatim>\<open>Body\<close>.\<close>

record APIGatewayProxyRequest =
  RequestBody :: string

text \<open>\<^verbatim>\<open>events.APIGatewayProxyResponse\<close>, with all its fields.\<close>

record APIGatewayProxyResponse =
  StatusCode :: int
  Headers :: "string \<rightharpoonup> string"
  MultiValueHeaders :: "string \<rightharpoonup> string list"
  Body :: string
  IsBase64Encoded :: bool

definition StatusOK :: int where
  "StatusOK = 200"

definition StatusInternalServerError :: int where
  "StatusInternalServerError = 500"

text \<open>A Go struct literal leaves the fields it does not name at their zero values.\<close>

definition status_only :: "int \<Rightarrow> APIGatewayProxyResponse" where
  "status_only c =
     \<lparr>StatusCode = c, Headers = Map.empty, MultiValueHeaders = Map.empty,
      Body = [], IsBase64Encoded = False\<rparr>"

definition status_body :: "int \<Rightarrow> string \<Rightarrow> APIGatewayProxyResponse" where
  "status_body c b =
     \<lparr>StatusCode = c, Headers = Map.empty, MultiValueHeaders = Map.empty,
      Body = b, IsBase64Encoded = False\<rparr>"

section \<open>The collaborators and the state of one run\<close>

text \<open>
  What the program calls outside its own code is a parameter of the model:
  \<^item> \<open>LoadDefaultConfig\<close>: the outcome of \<^verbatim>\<open>config.LoadDefaultConfig(ctx)\<close>;
  \<^item> \<open>time_Now n\<close>: what the \<open>n\<close>-th reading of the wall clock returns, and
    \<open>time_Format t layout\<close>: \<^verbatim>\<open>t.Format(layout)\<close>;
  \<^item> \<open>s3_answer cfg history call\<close>: the error (or nil) with which the storage backend
    answers \<open>call\<close>, sent by a client configured with \<open>cfg\<close>, after \<open>history\<close>;
  \<^item> \<open>zstd_NewWriter\<close>: the error (or nil) of \<^verbatim>\<open>zstd.NewWriter(&buf)\<close>,
    \<open>zstd_Write data\<close>: the error (or nil) of \<^verbatim>\<open>encoder.Write(data)\<close>, and
    \<open>zstd_Bytes data\<close>: what \<^verbatim>\<open>buf.Bytes()\<close> holds after that write and
    \<^verbatim>\<open>encoder.Close()\<close>.
\<close>

record env =
  LoadDefaultConfig :: "error + aws_Config"
  time_Now :: "nat \<Rightarrow> Time"
  time_Format :: "Time \<Rightarrow> string \<Rightarrow> string"
  s3_answer :: "aws_Config \<Rightarrow> (s3_call \<times> error option) list \<Rightarrow> s3_call \<Rightarrow> error option"
  zstd_NewWriter :: "error option"
  zstd_Write :: "bytes \<Rightarrow> error option"
  zstd_Bytes :: "bytes \<Rightarrow> bytes"

text \<open>
  The state a run changes: how often the clock has been read, every request sent to the
  storage backend with its answer (oldest first), and the messages given to
  \<^verbatim>\<open>log.Printf\<close>.
\<close>

record world =
  ticks :: nat
  s3_trace :: "(s3_call \<times> error option) list"
  log_lines :: "string list"

definition Now :: "env \<Rightarrow> world \<Rightarrow> Time \<times> world" where
  "Now e w = (time_Now e (ticks w), w\<lparr>ticks := Suc (ticks w)\<rparr>)"

definition log_Printf :: "string \<Rightarrow> world \<Rightarrow> world" where
  "log_Printf m w = w\<lparr>log_lines := log_lines w @ [m]\<rparr>"

definition s3_send :: "env \<Rightarrow> s3_Client \<Rightarrow> s3_call \<Rightarrow> world \<Rightarrow> error option \<times> world" where
  "s3_send e client c w =
     (let err = s3_answer e (options client) (s3_trace w) c
      in (err, w\<lparr>s3_trace := s3_trace w @ [(c, err)]\<rparr>))"

text \<open>The requests a run from \<open>w\<close> to \<open>w'\<close> has sent, with their answers.\<close>

definition issued :: "world \<Rightarrow> world \<Rightarrow> (s3_call \<times> error option) list" where
  "issued w w' = drop (length (s3_trace w)) (s3_trace w')"

section \<open>The operations of the source\<close>

definition CreateBucket ::
  "env \<Rightarrow> BucketBasics \<Rightarrow> string \<Rightarrow> string \<Rightarrow> world \<Rightarrow> error option \<times> world" where
  "CreateBucket e basics name region w =
     (case s3_send e (S3Client basics) (S3_CreateBucket name region) w of
        (None, w1) \<Rightarrow> (None, w1)
      | (Some err, w1) \<Rightarrow>
          (Some err,
           log_Printf (''Couldn't create bucket '' @ name @ '' in Region '' @ region
                       @ ''. Here's why: '' @ err @ [CHR 0x0A]) w1))"

definition UploadFileToS3 ::
  "env \<Rightarrow> BucketBasics \<Rightarrow> string \<Rightarrow> string \<Rightarrow> bytes \<Rightarrow> world \<Rightarrow> error option \<times> world" where
  "UploadFileToS3 e basics bucketName fileName fileData w =
     (case s3_send e (S3Client basics) (S3_PutObject bucketName fileName fileData) w of
        (None, w1) \<Rightarrow> (None, w1)
      | (Some err, w1) \<Rightarrow>
          (Some err,
           log_Printf (''Couldn't upload file to '' @ bucketName @ '':'' @ fileName
                       @ ''. Here's why: '' @ err @ [CHR 0x0A]) w1))"

definition compressZstd :: "env \<Rightarrow> bytes \<Rightarrow> error + bytes" where
  "compressZstd e data =
     (case zstd_NewWriter e of
        Some err \<Rightarrow> Inl (''zstandard compression initialization error: '' @ err)
      | None \<Rightarrow>
          (case zstd_Write e data of
             Some err \<Rightarrow> Inl (''zstandard compression error: '' @ err)
           | None \<Rightarrow> Inr (zstd_Bytes e data)))"

definition encrypt :: "bytes \<Rightarrow> bytes \<Rightarrow> error + bytes" where
  "encrypt data key = Inr data"

definition key :: bytes where
  "key = bytes_of_string ''your-encryption-key''"

definition compressAndEncrypt :: "env \<Rightarrow> bytes \<Rightarrow> error + bytes" where
  "compressAndEncrypt e data =
     (case compressZstd e data of
        Inl err \<Rightarrow> Inl (''zstandard compression error: '' @ err)
      | Inr compressedData \<Rightarrow>
          (case encrypt compressedData key of
             Inl err \<Rightarrow> Inl (''AES encryption error: '' @ err)
           | Inr encryptedData \<Rightarrow> Inr (key @ encryptedData)))"

text \<open>The handler of the compressing variant (the first \<^verbatim>\<open>main.go\<close>).\<close>

definition Handler ::
  "env \<Rightarrow> APIGatewayProxyRequest \<Rightarrow> world \<Rightarrow>
     (APIGatewayProxyResponse \<times> error option) \<times> world" where
  "Handler e request w =
     (case LoadDefaultConfig e of
        Inl err \<Rightarrow>
          ((status_only StatusInternalServerError, None),
           log_Printf (''Failed to load AWS config: '' @ err) w)
      | Inr cfg \<Rightarrow>
          (let s3Client = NewFromConfig cfg;
               (t1, w1) = Now e w;
               bucketName = ''filename'' @ time_Format e t1 ''20060102-150405'';
               basics = \<lparr>S3Client = s3Client\<rparr>
           in (case CreateBucket e basics bucketName ''ap-south-1'' w1 of
                 (Some err, w2) \<Rightarrow> ((status_only StatusInternalServerError, None), w2)
               | (None, w2) \<Rightarrow>
                   (let (t2, w3) = Now e w2;
                        fileName =
                          ''upload-'' @ time_Format e t2 ''20060102-150405'' @ ''.zst''
                    in (case compressAndEncrypt e (bytes_of_string (RequestBody request)) of
                          Inl err \<Rightarrow> ((status_only StatusInternalServerError, None), w3)
                        | Inr compressedAndEncryptedData \<Rightarrow>
                            (case UploadFileToS3 e basics bucketName fileName
                                    compressedAndEncryptedData w3 of
                               (Some err, w4) \<Rightarrow>
                                 ((status_only StatusInternalServerError, None), w4)
                             | (None, w4) \<Rightarrow>
                                 ((status_body StatusOK
                                     ''File successfully uploaded to S3.'', None),
                                  w4)))))))"

text \<open>The handler of the plain variant (the second \<^verbatim>\<open>main.go\<close>).\<close>

definition Handler_plain ::
  "env \<Rightarrow> APIGatewayProxyRequest \<Rightarrow> world \<Rightarrow>
     (APIGatewayProxyResponse \<times> error option) \<times> world" where
  "Handler_plain e request w =
     (case LoadDefaultConfig e of
        Inl err \<Rightarrow>
          ((status_only StatusInternalServerError, None),
           log_Printf (''Failed to load AWS config: '' @ err) w)
      | Inr cfg \<Rightarrow>
          (let s3Client = NewFromConfig cfg;
               (t1, w1) = Now e w;
               bucketName = ''your-prefix-'' @ time_Format e t1 ''20060102-150405'';
               basics = \<lparr>S3Client = s3Client\<rparr>
           in (case CreateBucket e basics bucketName ''ap-south-1'' w1 of
                 (Some err, w2) \<Rightarrow> ((status_only StatusInternalServerError, None), w2)
               | (None, w2) \<Rightarrow>
                   (let (t2, w3) = Now e w2;
                        fileName = ''upload-'' @ time_Format e t2 ''20060102-150405''
                    in (case UploadFileToS3 e basics bucketName fileName
                               (bytes_of_string (RequestBody request)) w3 of
                          (Some err, w4) \<Rightarrow>
                            ((status_only StatusInternalServerError, None), w4)
                        | (None, w4) \<Rightarrow>
                            ((status_body StatusOK
                                ''File successfully uploaded to S3.'', None),
                             w4))))))"

text \<open>\<^verbatim>\<open>time.Now().Format("20060102-150405")\<close> at the \<open>n\<close>-th reading of the clock.\<close>

abbreviation stamp :: "env \<Rightarrow> nat \<Rightarrow> string" where
  "stamp e n \<equiv> time_Format e (time_Now e n) ''20060102-150405''"

section \<open>Stub collaborators for concrete runs\<close>

text \<open>
  A stub codec that writes the frame magic number before the data unchanged, with the
  decoder that undoes it; a stub clock that starts at a given instant and advances by one
  nanosecond per reading; a stub formatter that knows the second 1700000000 of the epoch;
  and stub backends that accept every request, refuse every bucket creation, or refuse
  every object write.
\<close>

definition zstd_magic :: bytes where
  "zstd_magic = [0x28, 0xB5, 0x2F, 0xFD]"

definition stub_Format :: "Time \<Rightarrow> string \<Rightarrow> string" where
  "stub_Format t layout =
     (if t div 1000000000 = 1700000000 then ''20231114-221320'' else ''19700101-000000'')"

definition stub_decompress :: "bytes \<Rightarrow> bytes option" where
  "stub_decompress c = (if take 4 c = zstd_magic then Some (drop 4 c) else None)"

definition stub_env ::
  "Time \<Rightarrow> error + aws_Config \<Rightarrow> (s3_call \<Rightarrow> error option) \<Rightarrow> error option \<Rightarrow> env" where
  "stub_env start cfg answer init =
     \<lparr>LoadDefaultConfig = cfg,
      time_Now = (\<lambda>n. start + int n),
      time_Format = stub_Format,
      s3_answer = (\<lambda>c history. answer),
      zstd_NewWriter = init,
      zstd_Write = (\<lambda>d. None),
      zstd_Bytes = (\<lambda>d. zstd_magic @ d)\<rparr>"

definition all_ok :: "s3_call \<Rightarrow> error option" where
  "all_ok c = None"

definition create_fails :: "s3_call \<Rightarrow> error option" where
  "create_fails c = (if is_CreateBucket c then Some ''BucketAlreadyExists'' else None)"

definition put_fails :: "s3_call \<Rightarrow> error option" where
  "put_fails c = (if is_PutObject c then Some ''AccessDenied'' else None)"

definition us_east :: "error + aws_Config" where
  "us_east = Inr \<lparr>Region = ''us-east-1''\<rparr>"

definition env_ok :: env where
  "env_ok = stub_env 1700000000100000000 us_east all_ok None"

definition env_later :: env where
  "env_later = stub_env 1700000000900000000 us_east all_ok None"

definition env_no_config :: env where
  "env_no_config = stub_env 1700000000100000000 (Inl ''no credentials'') all_ok None"

definition env_create_fails :: env where
  "env_create_fails = stub_env 1700000000100000000 us_east create_fails None"

definition env_put_fails :: env where
  "env_put_fails = stub_env 1700000000100000000 us_east put_fails None"

definition env_zstd_fails :: env where
  "env_zstd_fails = stub_env 1700000000100000000 us_east all_ok (Some ''invalid option'')"

definition world0 :: world where
  "world0 = \<lparr>ticks = 0, s3_trace = [], log_lines = []\<rparr>"

definition hello :: APIGatewayProxyRequest where
  "hello = \<lparr>RequestBody = ''hello''\<rparr>"

definition empty_request :: APIGatewayProxyRequest where
  "empty_request = \<lparr>RequestBody = []\<rparr>"

section \<open>The runs of the handlers\<close>

lemmas run_defs = Handler_def Handler_plain_def CreateBucket_def UploadFileToS3_def s3_send_def
  Now_def log_Printf_def issued_def NewFromConfig_def Let_def

lemmas op_defs = compressAndEncrypt_def compressZstd_def encrypt_def key_def
  bytes_of_string_def status_only_def status_body_def StatusOK_def
  StatusInternalServerError_def

lemmas stub_defs = stub_env_def stub_Format_def stub_decompress_def zstd_magic_def all_ok_def
  create_fails_def put_fails_def us_east_def world0_def hello_def empty_request_def
  env_ok_def env_later_def env_no_config_def env_create_fails_def env_put_fails_def
  env_zstd_fails_def

text \<open>
  A run of the compressing handler ends in one of five ways: the configuration does not
  load; the bucket creation is refused; the transform fails after the bucket was created;
  the object write is refused; or everything succeeds. Each way fixes the response and
  the requests added to the trace.
\<close>

lemma Handler_runs:
  "(\<exists>x. LoadDefaultConfig e = Inl x
        \<and> fst (Handler e r w) = (status_only StatusInternalServerError, None)
        \<and> s3_trace (snd (Handler e r w)) = s3_trace w)
   \<or> (\<exists>cfg x. LoadDefaultConfig e = Inr cfg
        \<and> fst (Handler e r w) = (status_only StatusInternalServerError, None)
        \<and> s3_trace (snd (Handler e r w)) = s3_trace w @
             [(S3_CreateBucket (''filename'' @ stamp e (ticks w)) ''ap-south-1'', Some x)])
   \<or> (\<exists>cfg x. LoadDefaultConfig e = Inr cfg
        \<and> compressAndEncrypt e (bytes_of_string (RequestBody r)) = Inl x
        \<and> fst (Handler e r w) = (status_only StatusInternalServerError, None)
        \<and> s3_trace (snd (Handler e r w)) = s3_trace w @
             [(S3_CreateBucket (''filename'' @ stamp e (ticks w)) ''ap-south-1'', None)])
   \<or> (\<exists>cfg d x. LoadDefaultConfig e = Inr cfg
        \<and> compressAndEncrypt e (bytes_of_string (RequestBody r)) = Inr d
        \<and> fst (Handler e r w) = (status_only StatusInternalServerError, None)
        \<and> s3_trace (snd (Handler e r w)) = s3_trace w @
             [(S3_CreateBucket (''filename'' @ stamp e (ticks w)) ''ap-south-1'', None),
              (S3_PutObject (''filename'' @ stamp e (ticks w))
                 (''upload-'' @ stamp e (Suc (ticks w)) @ ''.zst'') d, Some x)])
   \<or> (\<exists>cfg d. LoadDefaultConfig e = Inr cfg
        \<and> compressAndEncrypt e (bytes_of_string (RequestBody r)) = Inr d
        \<and> fst (Handler e r w) =
            (status_body StatusOK ''File successfully uploaded to S3.'', None)
        \<and> s3_trace (snd (Handler e r w)) = s3_trace w @
             [(S3_CreateBucket (''filename'' @ stamp e (ticks w)) ''ap-south-1'', None),
              (S3_PutObject (''filename'' @ stamp e (ticks w))
                 (''upload-'' @ stamp e (Suc (ticks w)) @ ''.zst'') d, None)])"
  unfolding run_defs
  by (auto split: sum.splits option.splits prod.splits)

text \<open>The plain handler has no transform, so its runs end in one of four ways.\<close>

lemma Handler_plain_runs:
  "(\<exists>x. LoadDefaultConfig e = Inl x
        \<and> fst (Handler_plain e r w) = (status_only StatusInternalServerError, None)
        \<and> s3_trace (snd (Handler_plain e r w)) = s3_trace w)
   \<or> (\<exists>cfg x. LoadDefaultConfig e = Inr cfg
        \<and> fst (Handler_plain e r w) = (status_only StatusInternalServerError, None)
        \<and> s3_trace (snd (Handler_plain e r w)) = s3_trace w @
             [(S3_CreateBucket (''your-prefix-'' @ stamp e (ticks w)) ''ap-south-1'', Some x)])
   \<or> (\<exists>cfg x. LoadDefaultConfig e = Inr cfg
        \<and> fst (Handler_plain e r w) = (status_only StatusInternalServerError, None)
        \<and> s3_trace (snd (Handler_plain e r w)) = s3_trace w @
             [(S3_CreateBucket (''your-prefix-'' @ stamp e (ticks w)) ''ap-south-1'', None),
              (S3_PutObject (''your-prefix-'' @ stamp e (ticks w))
                 (''upload-'' @ stamp e (Suc (ticks w)))
                 (bytes_of_string (RequestBody r)), Some x)])
   \<or> (\<exists>cfg. LoadDefaultConfig e = Inr cfg
        \<and> fst (Handler_plain e r w) =
            (status_body StatusOK ''File successfully uploaded to S3.'', None)
        \<and> s3_trace (snd (Handler_plain e r w)) = s3_trace w @
             [(S3_CreateBucket (''your-prefix-'' @ stamp e (ticks w)) ''ap-south-1'', None),
              (S3_PutObject (''your-prefix-'' @ stamp e (ticks w))
                 (''upload-'' @ stamp e (Suc (ticks w)))
                 (bytes_of_string (RequestBody r)), None)])"
  unfolding run_defs
  by (auto split: sum.splits option.splits prod.splits)

lemma issued_append: "s3_trace w' = s3_trace w @ xs \<Longrightarrow> issued w w' = xs"
  by (simp add: issued_def)

lemma not_sublist_prefix: "\<not> sublist p zs \<Longrightarrow> \<not> sublist (p @ s) zs"
  unfolding sublist_def by (metis append.assoc)

lemma literal_free_of_names:
  "\<not> sublist (''filename'' @ s) ''File successfully uploaded to S3.''"
  "\<not> sublist (''your-prefix-'' @ s) ''File successfully uploaded to S3.''"
  "\<not> sublist (''upload-'' @ s) ''File successfully uploaded to S3.''"
  by (rule not_sublist_prefix, code_simp)+

section \<open>The transform\<close>



text \<open>
  C6 (shape of the obscure stage). \<open>encrypt\<close> returns its input unchanged and never an
  error, whatever the data and the key. Whenever the compression yields bytes,
  \<open>compressAndEncrypt\<close> yields the fixed key followed by those bytes (encrypted by the
  identity); and \<open>compressAndEncrypt\<close> fails only when the compression failed, with the
  compression's error wrapped.
\<close>

theorem obscure_stage_shape:
  "encrypt data k = Inr data
   \<and> (\<forall>c. compressZstd e d = Inr c
          \<longrightarrow> encrypt c key = Inr c \<and> compressAndEncrypt e d = Inr (key @ c))
   \<and> (\<forall>x. compressAndEncrypt e d = Inl x
          \<longrightarrow> (\<exists>y. compressZstd e d = Inl y \<and> x = ''zstandard compression error: '' @ y))"
  by (auto simp: compressAndEncrypt_def encrypt_def split: sum.splits)

theorem obscure_stage_shape_witness:
  "compressZstd env_ok (bytes_of_string ''hello'') =
     Inr (zstd_magic @ bytes_of_string ''hello'')
   \<and> compressAndEncrypt env_ok (bytes_of_string ''hello'') =
       Inr (key @ zstd_magic @ bytes_of_string ''hello'')
   \<and> compressZstd env_zstd_fails (bytes_of_string ''hello'') =
       Inl ''zstandard compression initialization error: invalid option''
   \<and> compressAndEncrypt env_zstd_fails (bytes_of_string ''hello'') =
       Inl (''zstandard compression error: ''
            @ ''zstandard compression initialization error: invalid option'')"
  using obscure_stage_shape [of "bytes_of_string ''hello''" key env_ok
                                "bytes_of_string ''hello''"]
        obscure_stage_shape [of "bytes_of_string ''hello''" key env_zstd_fails
                                "bytes_of_string ''hello''"]
  by (simp add: stub_defs compressZstd_def compressAndEncrypt_def encrypt_def)

section \<open>The responses of the handlers\<close>

text \<open>
  C2 (uniform error surface). In both variants, whenever a stage fails (the configuration
  does not load, a request of the run to the storage backend is answered with an error,
  which covers the bucket creation and the object write, or, in the compressing variant,
  the transform of the request body fails), the handler returns the response with status
  500 and every other field at its zero value: the body is empty, there are no headers,
  and the error beside the response is nil.
\<close>

theorem uniform_error_surface:
  "((\<exists>x. LoadDefaultConfig e = Inl x)
      \<or> (\<exists>c x. (c, Some x) \<in> set (issued w (snd (Handler e r w))))
      \<or> (\<exists>x. compressAndEncrypt e (bytes_of_string (RequestBody r)) = Inl x)
     \<longrightarrow> fst (Handler e r w) =
           (\<lparr>StatusCode = 500, Headers = Map.empty, MultiValueHeaders = Map.empty,
             Body = [], IsBase64Encoded = False\<rparr>, None))
   \<and> ((\<exists>x. LoadDefaultConfig e = Inl x)
      \<or> (\<exists>c x. (c, Some x) \<in> set (issued w (snd (Handler_plain e r w))))
     \<longrightarrow> fst (Handler_plain e r w) =
           (\<lparr>StatusCode = 500, Headers = Map.empty, MultiValueHeaders = Map.empty,
             Body = [], IsBase64Encoded = False\<rparr>, None))"
  apply (rule conjI)
  subgoal
    using Handler_runs [of e r w]
    by (auto simp: issued_append status_only_def StatusInternalServerError_def)
  subgoal
    using Handler_plain_runs [of e r w]
    by (auto simp: issued_append status_only_def StatusInternalServerError_def)
  done

theorem uniform_error_surface_witness:
  "LoadDefaultConfig env_no_config = Inl ''no credentials''
   \<and> fst (Handler env_no_config hello world0) =
       (\<lparr>StatusCode = 500, Headers = Map.empty, MultiValueHeaders = Map.empty,
         Body = [], IsBase64Encoded = False\<rparr>, None)
   \<and> compressAndEncrypt env_zstd_fails (bytes_of_string (RequestBody hello)) =
       Inl (''zstandard compression error: ''
            @ ''zstandard compression initialization error: invalid option'')
   \<and> fst (Handler env_zstd_fails hello world0) =
       (\<lparr>StatusCode = 500, Headers = Map.empty, MultiValueHeaders = Map.empty,
         Body = [], IsBase64Encoded = False\<rparr>, None)
   \<and> (S3_PutObject ''your-prefix-20231114-221320'' ''upload-20231114-221320''
         (bytes_of_string ''hello''), Some ''AccessDenied'')
       \<in> set (issued world0 (snd (Handler_plain env_put_fails hello world0)))
   \<and> fst (Handler_plain env_put_fails hello world0) =
       (\<lparr>StatusCode = 500, Headers = Map.empty, MultiValueHeaders = Map.empty,
         Body = [], IsBase64Encoded = False\<rparr>, None)"
  using uniform_error_surface [of env_no_config world0 hello]
        uniform_error_surface [of env_zstd_fails world0 hello]
        uniform_error_surface [of env_put_fails world0 hello]
  by (simp add: run_defs stub_defs op_defs)

text \<open>
  C3 (fail-fast on a provisioning error). In both variants, when the bucket creation of
  a run is answered with an error, that creation is the only request the run sends to
  the storage backend: no object write is sent, and the status of the response is 500.
\<close>

theorem fail_fast_on_provisioning_error:
  "((\<exists>b g x. (S3_CreateBucket b g, Some x) \<in> set (issued w (snd (Handler e r w))))
     \<longrightarrow> (\<exists>b g x. issued w (snd (Handler e r w)) = [(S3_CreateBucket b g, Some x)])
         \<and> (\<forall>c a. (c, a) \<in> set (issued w (snd (Handler e r w))) \<longrightarrow> \<not> is_PutObject c)
         \<and> StatusCode (fst (fst (Handler e r w))) = 500)
   \<and> ((\<exists>b g x. (S3_CreateBucket b g, Some x) \<in> set (issued w (snd (Handler_plain e r w))))
     \<longrightarrow> (\<exists>b g x. issued w (snd (Handler_plain e r w)) = [(S3_CreateBucket b g, Some x)])
         \<and> (\<forall>c a. (c, a) \<in> set (issued w (snd (Handler_plain e r w)))
               \<longrightarrow> \<not> is_PutObject c)
         \<and> StatusCode (fst (fst (Handler_plain e r w))) = 500)"
  apply (rule conjI)
  subgoal
    using Handler_runs [of e r w]
    by (auto simp: issued_append status_only_def StatusInternalServerError_def)
  subgoal
    using Handler_plain_runs [of e r w]
    by (auto simp: issued_append status_only_def StatusInternalServerError_def)
  done

theorem fail_fast_on_provisioning_error_witness:
  "issued world0 (snd (Handler env_create_fails hello world0)) =
     [(S3_CreateBucket ''filename20231114-221320'' ''ap-south-1'', Some ''BucketAlreadyExists'')]
   \<and> StatusCode (fst (fst (Handler env_create_fails hello world0))) = 500
   \<and> issued world0 (snd (Handler_plain env_create_fails hello world0)) =
     [(S3_CreateBucket ''your-prefix-20231114-221320'' ''ap-south-1'',
       Some ''BucketAlreadyExists'')]
   \<and> StatusCode (fst (fst (Handler_plain env_create_fails hello world0))) = 500"
  using fail_fast_on_provisioning_error [of world0 env_create_fails hello]
  by (simp add: run_defs stub_defs op_defs)

text \<open>
  C4 (success path literal). In both variants, when every stage succeeds (the
  configuration loads, the transform yields bytes, and every request of the run to the
  storage backend is answered without error), the handler returns status 200 with the
  body \<open>''File successfully uploaded to S3.''\<close>, every other field at its zero value and a
  nil error. The body is this literal for every request, and neither the bucket name nor
  the object key of any request the run sent occurs in it.
\<close>

theorem success_path_literal:
  "((\<exists>cfg. LoadDefaultConfig e = Inr cfg)
      \<and> (\<exists>d. compressAndEncrypt e (bytes_of_string (RequestBody r)) = Inr d)
      \<and> (\<forall>c a. (c, a) \<in> set (issued w (snd (Handler e r w))) \<longrightarrow> a = None)
     \<longrightarrow> fst (Handler e r w) =
           (\<lparr>StatusCode = 200, Headers = Map.empty, MultiValueHeaders = Map.empty,
             Body = ''File successfully uploaded to S3.'', IsBase64Encoded = False\<rparr>, None)
         \<and> (\<forall>c a. (c, a) \<in> set (issued w (snd (Handler e r w)))
               \<longrightarrow> \<not> sublist (call_Bucket c) (Body (fst (fst (Handler e r w))))
                 \<and> (\<forall>b k d. c = S3_PutObject b k d
                       \<longrightarrow> \<not> sublist k (Body (fst (fst (Handler e r w)))))))
   \<and> ((\<exists>cfg. LoadDefaultConfig e = Inr cfg)
      \<and> (\<forall>c a. (c, a) \<in> set (issued w (snd (Handler_plain e r w))) \<longrightarrow> a = None)
     \<longrightarrow> fst (Handler_plain e r w) =
           (\<lparr>StatusCode = 200, Headers = Map.empty, MultiValueHeaders = Map.empty,
             Body = ''File successfully uploaded to S3.'', IsBase64Encoded = False\<rparr>, None)
         \<and> (\<forall>c a. (c, a) \<in> set (issued w (snd (Handler_plain e r w)))
               \<longrightarrow> \<not> sublist (call_Bucket c) (Body (fst (fst (Handler_plain e r w))))
                 \<and> (\<forall>b k d. c = S3_PutObject b k d
                       \<longrightarrow> \<not> sublist k (Body (fst (fst (Handler_plain e r w)))))))"
  apply (rule conjI)
  subgoal
    using Handler_runs [of e r w]
    by (auto simp: issued_append status_body_def StatusOK_def literal_free_of_names
             simp del: append.simps)
  subgoal
    using Handler_plain_runs [of e r w]
    by (auto simp: issued_append status_body_def StatusOK_def literal_free_of_names
             simp del: append.simps)
  done

theorem success_path_literal_witness:
  "LoadDefaultConfig env_ok = Inr \<lparr>Region = ''us-east-1''\<rparr>
   \<and> compressAndEncrypt env_ok (bytes_of_string (RequestBody hello)) =
       Inr (key @ zstd_magic @ bytes_of_string ''hello'')
   \<and> issued world0 (snd (Handler env_ok hello world0)) =
       [(S3_CreateBucket ''filename20231114-221320'' ''ap-south-1'', None),
        (S3_PutObject ''filename20231114-221320'' ''upload-20231114-221320.zst''
           (key @ zstd_magic @ bytes_of_string ''hello''), None)]
   \<and> fst (Handler env_ok hello world0) =
       (\<lparr>StatusCode = 200, Headers = Map.empty, MultiValueHeaders = Map.empty,
         Body = ''File successfully uploaded to S3.'', IsBase64Encoded = False\<rparr>, None)
   \<and> issued world0 (snd (Handler_plain env_ok hello world0)) =
       [(S3_CreateBucket ''your-prefix-20231114-221320'' ''ap-south-1'', None),
        (S3_PutObject ''your-prefix-20231114-221320'' ''upload-20231114-221320''
           (bytes_of_string ''hello''), None)]
   \<and> fst (Handler_plain env_ok hello world0) =
       (\<lparr>StatusCode = 200, Headers = Map.empty, MultiValueHeaders = Map.empty,
         Body = ''File successfully uploaded to S3.'', IsBase64Encoded = False\<rparr>, None)"
proof -
  have cfg: "LoadDefaultConfig env_ok = Inr \<lparr>Region = ''us-east-1''\<rparr>"
    by (simp add: stub_defs)
  have tr: "compressAndEncrypt env_ok (bytes_of_string (RequestBody hello)) =
              Inr (key @ zstd_magic @ bytes_of_string ''hello'')"
    by (simp add: stub_defs compressAndEncrypt_def compressZstd_def encrypt_def)
  have zst: "issued world0 (snd (Handler env_ok hello world0)) =
               [(S3_CreateBucket ''filename20231114-221320'' ''ap-south-1'', None),
                (S3_PutObject ''filename20231114-221320'' ''upload-20231114-221320.zst''
                   (key @ zstd_magic @ bytes_of_string ''hello''), None)]"
    by (simp add: run_defs stub_defs compressAndEncrypt_def compressZstd_def encrypt_def)
  have plain: "issued world0 (snd (Handler_plain env_ok hello world0)) =
               [(S3_CreateBucket ''your-prefix-20231114-221320'' ''ap-south-1'', None),
                (S3_PutObject ''your-prefix-20231114-221320'' ''upload-20231114-221320''
                   (bytes_of_string ''hello''), None)]"
    by (simp add: run_defs stub_defs)
  have hyp: "(\<exists>cfg. LoadDefaultConfig env_ok = Inr cfg)
      \<and> (\<exists>d. compressAndEncrypt env_ok (bytes_of_string (RequestBody hello)) = Inr d)
      \<and> (\<forall>c a. (c, a) \<in> set (issued world0 (snd (Handler env_ok hello world0)))
            \<longrightarrow> a = None)"
    using cfg tr by (auto simp: zst)
  have hyp_plain: "(\<exists>cfg. LoadDefaultConfig env_ok = Inr cfg)
      \<and> (\<forall>c a. (c, a) \<in> set (issued world0 (snd (Handler_plain env_ok hello world0)))
            \<longrightarrow> a = None)"
    using cfg by (auto simp: plain)
  note literal = success_path_literal [of env_ok hello world0]
  from literal [THEN conjunct1, THEN mp, OF hyp, THEN conjunct1]
       literal [THEN conjunct2, THEN mp, OF hyp_plain, THEN conjunct1]
       cfg tr zst plain
  show ?thesis
    by simp
qed
text \<open>
  C10 (result shape). In both variants and for every run, the error the handler returns
  beside the response is nil, and the status of the response is 200 or 500.
\<close>

theorem handler_result_shape:
  "snd (fst (Handler e r w)) = None
   \<and> (StatusCode (fst (fst (Handler e r w))) = 200
      \<or> StatusCode (fst (fst (Handler e r w))) = 500)
   \<and> snd (fst (Handler_plain e r w)) = None
   \<and> (StatusCode (fst (fst (Handler_plain e r w))) = 200
      \<or> StatusCode (fst (fst (Handler_plain e r w))) = 500)"
  using Handler_runs [of e r w] Handler_plain_runs [of e r w]
  by (auto simp: status_only_def status_body_def StatusOK_def StatusInternalServerError_def)

theorem handler_result_shape_witness:
  "fst (Handler env_ok hello world0) =
     (status_body 200 ''File successfully uploaded to S3.'', None)
   \<and> fst (Handler env_no_config hello world0) = (status_only 500, None)
   \<and> fst (Handler_plain env_ok hello world0) =
     (status_body 200 ''File successfully uploaded to S3.'', None)
   \<and> fst (Handler_plain env_create_fails hello world0) = (status_only 500, None)"
  using handler_result_shape [of env_ok hello world0]
        handler_result_shape [of env_no_config hello world0]
        handler_result_shape [of env_create_fails hello world0]
  by (simp add: run_defs stub_defs compressAndEncrypt_def compressZstd_def encrypt_def
                StatusOK_def StatusInternalServerError_def)

section \<open>The requests of a run\<close>

text \<open>
  C9 (shape of the bucket creation request). \<open>CreateBucket\<close> adds exactly one request to
  the trace: a bucket creation whose bucket name is its \<open>name\<close> argument and whose location
  constraint is its \<open>region\<close> argument, and it returns the backend's answer to it. In both
  variants, whatever configuration was loaded (so whatever its region), the first request
  of a run is a bucket creation with the location constraint \<open>''ap-south-1''\<close> and no
  later request of the run is a bucket creation; every bucket creation of a run has that
  location constraint.
\<close>

theorem bucket_creation_request_shape:
  "s3_trace (snd (CreateBucket e basics name region w)) =
     s3_trace w @ [(S3_CreateBucket name region, fst (CreateBucket e basics name region w))]
   \<and> fst (CreateBucket e basics name region w) =
       s3_answer e (options (S3Client basics)) (s3_trace w) (S3_CreateBucket name region)
   \<and> (\<forall>cfg. LoadDefaultConfig e = Inr cfg
        \<longrightarrow> (\<exists>b a rest. issued w (snd (Handler e r w)) =
                 (S3_CreateBucket b ''ap-south-1'', a) # rest
               \<and> (\<forall>c a'. (c, a') \<in> set rest \<longrightarrow> \<not> is_CreateBucket c))
          \<and> (\<exists>b a rest. issued w (snd (Handler_plain e r w)) =
                 (S3_CreateBucket b ''ap-south-1'', a) # rest
               \<and> (\<forall>c a'. (c, a') \<in> set rest \<longrightarrow> \<not> is_CreateBucket c)))
   \<and> (\<forall>b g a. (S3_CreateBucket b g, a) \<in> set (issued w (snd (Handler e r w)))
               \<or> (S3_CreateBucket b g, a) \<in> set (issued w (snd (Handler_plain e r w)))
        \<longrightarrow> g = ''ap-south-1'')"
  apply (intro conjI)
  subgoal by (simp add: CreateBucket_def s3_send_def log_Printf_def Let_def split: option.splits)
  subgoal by (simp add: CreateBucket_def s3_send_def log_Printf_def Let_def split: option.splits)
  subgoal
    using Handler_runs [of e r w] Handler_plain_runs [of e r w]
    by (auto simp: issued_append)
  subgoal
    using Handler_runs [of e r w] Handler_plain_runs [of e r w]
    by (auto simp: issued_append)
  done

theorem bucket_creation_request_shape_witness:
  "s3_trace (snd (CreateBucket env_create_fails \<lparr>S3Client = \<lparr>options = \<lparr>Region = ''us-east-1''\<rparr>\<rparr>\<rparr>
                    ''reports'' ''eu-west-1'' world0)) =
     [(S3_CreateBucket ''reports'' ''eu-west-1'', Some ''BucketAlreadyExists'')]
   \<and> LoadDefaultConfig env_ok = Inr \<lparr>Region = ''us-east-1''\<rparr>
   \<and> (\<exists>rest. issued world0 (snd (Handler env_ok hello world0)) =
         (S3_CreateBucket ''filename20231114-221320'' ''ap-south-1'', None) # rest)
   \<and> (\<exists>rest. issued world0 (snd (Handler_plain env_ok hello world0)) =
         (S3_CreateBucket ''your-prefix-20231114-221320'' ''ap-south-1'', None) # rest)"
proof -
  let ?basics = "\<lparr>S3Client = \<lparr>options = \<lparr>Region = ''us-east-1''\<rparr>\<rparr>\<rparr>"
  note shape = bucket_creation_request_shape
                 [of env_create_fails ?basics "''reports''" "''eu-west-1''" world0 hello]
  have answer: "fst (CreateBucket env_create_fails ?basics ''reports'' ''eu-west-1'' world0) =
                  Some ''BucketAlreadyExists''"
    using shape [THEN conjunct2, THEN conjunct1]
    by (simp add: stub_defs)
  have one: "s3_trace (snd (CreateBucket env_create_fails ?basics ''reports'' ''eu-west-1''
                              world0)) =
               [(S3_CreateBucket ''reports'' ''eu-west-1'', Some ''BucketAlreadyExists'')]"
    using shape [THEN conjunct1] answer
    by (simp add: world0_def)
  have cfg: "LoadDefaultConfig env_ok = Inr \<lparr>Region = ''us-east-1''\<rparr>"
    by (simp add: stub_defs)
  have zst: "issued world0 (snd (Handler env_ok hello world0)) =
               [(S3_CreateBucket ''filename20231114-221320'' ''ap-south-1'', None),
                (S3_PutObject ''filename20231114-221320'' ''upload-20231114-221320.zst''
                   (key @ zstd_magic @ bytes_of_string ''hello''), None)]"
    by (simp add: run_defs stub_defs compressAndEncrypt_def compressZstd_def encrypt_def)
  have plain: "issued world0 (snd (Handler_plain env_ok hello world0)) =
               [(S3_CreateBucket ''your-prefix-20231114-221320'' ''ap-south-1'', None),
                (S3_PutObject ''your-prefix-20231114-221320'' ''upload-20231114-221320''
                   (bytes_of_string ''hello''), None)]"
    by (simp add: run_defs stub_defs)
  have first: "\<exists>b a rest. issued world0 (snd (Handler env_ok hello world0)) =
                 (S3_CreateBucket b ''ap-south-1'', a) # rest"
    using bucket_creation_request_shape
            [of env_ok ?basics "''reports''" "''eu-west-1''" world0 hello,
             THEN conjunct2, THEN conjunct2, THEN conjunct1, rule_format, OF cfg]
    by blast
  from first one cfg zst plain show ?thesis
    by simp
qed

text \<open>
  C7 (no cleanup after a partial failure). In both variants, when the bucket creation of
  a run succeeded and then the transform failed or the object write was answered with an
  error, the status of the response is 500 and the run sent nothing but the bucket
  creation, followed in the second case by the one refused object write to the same
  bucket: no request of the run is a deletion, and the trace after the run is the trace
  before it with these requests added, so the created bucket stays.
\<close>

theorem no_partial_failure_cleanup:
  "((\<exists>b g. (S3_CreateBucket b g, None) \<in> set (issued w (snd (Handler e r w))))
      \<and> ((\<exists>x. compressAndEncrypt e (bytes_of_string (RequestBody r)) = Inl x)
         \<or> (\<exists>b k d x. (S3_PutObject b k d, Some x) \<in> set (issued w (snd (Handler e r w)))))
     \<longrightarrow> StatusCode (fst (fst (Handler e r w))) = 500
         \<and> (\<forall>c a. (c, a) \<in> set (issued w (snd (Handler e r w))) \<longrightarrow> \<not> is_Delete c)
         \<and> ((\<exists>b g. issued w (snd (Handler e r w)) = [(S3_CreateBucket b g, None)])
            \<or> (\<exists>b g k d x. issued w (snd (Handler e r w)) =
                  [(S3_CreateBucket b g, None), (S3_PutObject b k d, Some x)]))
         \<and> s3_trace (snd (Handler e r w)) = s3_trace w @ issued w (snd (Handler e r w)))
   \<and> ((\<exists>b g. (S3_CreateBucket b g, None) \<in> set (issued w (snd (Handler_plain e r w))))
      \<and> (\<exists>b k d x. (S3_PutObject b k d, Some x) \<in> set (issued w (snd (Handler_plain e r w))))
     \<longrightarrow> StatusCode (fst (fst (Handler_plain e r w))) = 500
         \<and> (\<forall>c a. (c, a) \<in> set (issued w (snd (Handler_plain e r w))) \<longrightarrow> \<not> is_Delete c)
         \<and> (\<exists>b g k d x. issued w (snd (Handler_plain e r w)) =
                  [(S3_CreateBucket b g, None), (S3_PutObject b k d, Some x)])
         \<and> s3_trace (snd (Handler_plain e r w)) =
             s3_trace w @ issued w (snd (Handler_plain e r w)))"
  apply (rule conjI)
  subgoal
    using Handler_runs [of e r w]
    by (auto simp: issued_append status_only_def StatusInternalServerError_def)
  subgoal
    using Handler_plain_runs [of e r w]
    by (auto simp: issued_append status_only_def StatusInternalServerError_def)
  done

theorem no_partial_failure_cleanup_witness:
  "issued world0 (snd (Handler env_put_fails hello world0)) =
     [(S3_CreateBucket ''filename20231114-221320'' ''ap-south-1'', None),
      (S3_PutObject ''filename20231114-221320'' ''upload-20231114-221320.zst''
         (key @ zstd_magic @ bytes_of_string ''hello''), Some ''AccessDenied'')]
   \<and> StatusCode (fst (fst (Handler env_put_fails hello world0))) = 500
   \<and> issued world0 (snd (Handler env_zstd_fails hello world0)) =
     [(S3_CreateBucket ''filename20231114-221320'' ''ap-south-1'', None)]
   \<and> StatusCode (fst (fst (Handler env_zstd_fails hello world0))) = 500
   \<and> issued world0 (snd (Handler_plain env_put_fails hello world0)) =
     [(S3_CreateBucket ''your-prefix-20231114-221320'' ''ap-south-1'', None),
      (S3_PutObject ''your-prefix-20231114-221320'' ''upload-20231114-221320''
         (bytes_of_string ''hello''), Some ''AccessDenied'')]
   \<and> StatusCode (fst (fst (Handler_plain env_put_fails hello world0))) = 500"
proof -
  have put: "issued world0 (snd (Handler env_put_fails hello world0)) =
     [(S3_CreateBucket ''filename20231114-221320'' ''ap-south-1'', None),
      (S3_PutObject ''filename20231114-221320'' ''upload-20231114-221320.zst''
         (key @ zstd_magic @ bytes_of_string ''hello''), Some ''AccessDenied'')]"
    by (simp add: run_defs stub_defs compressAndEncrypt_def compressZstd_def encrypt_def)
  have tr: "compressAndEncrypt env_zstd_fails (bytes_of_string (RequestBody hello)) =
              Inl (''zstandard compression error: ''
                   @ ''zstandard compression initialization error: invalid option'')"
    by (simp add: stub_defs compressAndEncrypt_def compressZstd_def)
  have zstd: "issued world0 (snd (Handler env_zstd_fails hello world0)) =
     [(S3_CreateBucket ''filename20231114-221320'' ''ap-south-1'', None)]"
    by (simp add: run_defs stub_defs compressAndEncrypt_def compressZstd_def encrypt_def)
  have plain: "issued world0 (snd (Handler_plain env_put_fails hello world0)) =
     [(S3_CreateBucket ''your-prefix-20231114-221320'' ''ap-south-1'', None),
      (S3_PutObject ''your-prefix-20231114-221320'' ''upload-20231114-221320''
         (bytes_of_string ''hello''), Some ''AccessDenied'')]"
    by (simp add: run_defs stub_defs)
  have hyp_put:
    "(\<exists>b g. (S3_CreateBucket b g, None)
              \<in> set (issued world0 (snd (Handler env_put_fails hello world0))))
      \<and> ((\<exists>x. compressAndEncrypt env_put_fails (bytes_of_string (RequestBody hello)) = Inl x)
         \<or> (\<exists>b k d x. (S3_PutObject b k d, Some x)
                \<in> set (issued world0 (snd (Handler env_put_fails hello world0)))))"
    by (simp add: put)
  have hyp_zstd:
    "(\<exists>b g. (S3_CreateBucket b g, None)
              \<in> set (issued world0 (snd (Handler env_zstd_fails hello world0))))
      \<and> ((\<exists>x. compressAndEncrypt env_zstd_fails (bytes_of_string (RequestBody hello)) = Inl x)
         \<or> (\<exists>b k d x. (S3_PutObject b k d, Some x)
                \<in> set (issued world0 (snd (Handler env_zstd_fails hello world0)))))"
    by (simp add: zstd tr)
  have hyp_plain:
    "(\<exists>b g. (S3_CreateBucket b g, None)
              \<in> set (issued world0 (snd (Handler_plain env_put_fails hello world0))))
      \<and> (\<exists>b k d x. (S3_PutObject b k d, Some x)
                \<in> set (issued world0 (snd (Handler_plain env_put_fails hello world0))))"
    by (simp add: plain)
  from no_partial_failure_cleanup [of world0 env_put_fails hello,
         THEN conjunct1, THEN mp, OF hyp_put, THEN conjunct1]
       no_partial_failure_cleanup [of world0 env_zstd_fails hello,
         THEN conjunct1, THEN mp, OF hyp_zstd, THEN conjunct1]
       no_partial_failure_cleanup [of world0 env_put_fails hello,
         THEN conjunct2, THEN mp, OF hyp_plain, THEN conjunct1]
       put zstd plain
  show ?thesis
    by simp
qed



text \<open>
  C5 (same-second naming collision). Each handler reads the clock twice, once for the
  bucket name and once for the object key, and formats each reading with the layout
  \<open>''20060102-150405''\<close>. In both variants, for two runs whose first readings format to
  the same text and whose second readings format to the same text, the bucket names of
  their bucket creations are equal, and the bucket names and the object keys of their
  object writes are equal: a name is a fixed prefix, the formatted reading and a fixed
  suffix, and nothing else.
\<close>

theorem same_second_naming_collision:
  assumes "stamp e1 (ticks w1) = stamp e2 (ticks w2)"
      and "stamp e1 (Suc (ticks w1)) = stamp e2 (Suc (ticks w2))"
  shows "(\<forall>b1 g1 a1 b2 g2 a2.
            (S3_CreateBucket b1 g1, a1) \<in> set (issued w1 (snd (Handler e1 r1 w1)))
            \<longrightarrow> (S3_CreateBucket b2 g2, a2) \<in> set (issued w2 (snd (Handler e2 r2 w2)))
            \<longrightarrow> b1 = b2)
       \<and> (\<forall>b1 k1 d1 a1 b2 k2 d2 a2.
            (S3_PutObject b1 k1 d1, a1) \<in> set (issued w1 (snd (Handler e1 r1 w1)))
            \<longrightarrow> (S3_PutObject b2 k2 d2, a2) \<in> set (issued w2 (snd (Handler e2 r2 w2)))
            \<longrightarrow> b1 = b2 \<and> k1 = k2)
       \<and> (\<forall>b1 g1 a1 b2 g2 a2.
            (S3_CreateBucket b1 g1, a1) \<in> set (issued w1 (snd (Handler_plain e1 r1 w1)))
            \<longrightarrow> (S3_CreateBucket b2 g2, a2) \<in> set (issued w2 (snd (Handler_plain e2 r2 w2)))
            \<longrightarrow> b1 = b2)
       \<and> (\<forall>b1 k1 d1 a1 b2 k2 d2 a2.
            (S3_PutObject b1 k1 d1, a1) \<in> set (issued w1 (snd (Handler_plain e1 r1 w1)))
            \<longrightarrow> (S3_PutObject b2 k2 d2, a2) \<in> set (issued w2 (snd (Handler_plain e2 r2 w2)))
            \<longrightarrow> b1 = b2 \<and> k1 = k2)"
  apply (intro conjI)
  subgoal
    using assms Handler_runs [of e1 r1 w1] Handler_runs [of e2 r2 w2]
    by (auto simp: issued_append)
  subgoal
    using assms Handler_runs [of e1 r1 w1] Handler_runs [of e2 r2 w2]
    by (auto simp: issued_append)
  subgoal
    using assms Handler_plain_runs [of e1 r1 w1] Handler_plain_runs [of e2 r2 w2]
    by (auto simp: issued_append)
  subgoal
    using assms Handler_plain_runs [of e1 r1 w1] Handler_plain_runs [of e2 r2 w2]
    by (auto simp: issued_append)
  done

theorem same_second_naming_collision_witness:
  "time_Now env_ok 0 \<noteq> time_Now env_later 0
   \<and> stamp env_ok 0 = stamp env_later 0
   \<and> stamp env_ok (Suc 0) = stamp env_later (Suc 0)
   \<and> issued world0 (snd (Handler env_ok hello world0)) =
       [(S3_CreateBucket ''filename20231114-221320'' ''ap-south-1'', None),
        (S3_PutObject ''filename20231114-221320'' ''upload-20231114-221320.zst''
           (key @ zstd_magic @ bytes_of_string ''hello''), None)]
   \<and> issued world0 (snd (Handler env_later empty_request world0)) =
       [(S3_CreateBucket ''filename20231114-221320'' ''ap-south-1'', None),
        (S3_PutObject ''filename20231114-221320'' ''upload-20231114-221320.zst''
           (key @ zstd_magic), None)]
   \<and> issued world0 (snd (Handler_plain env_ok hello world0)) =
       [(S3_CreateBucket ''your-prefix-20231114-221320'' ''ap-south-1'', None),
        (S3_PutObject ''your-prefix-20231114-221320'' ''upload-20231114-221320''
           (bytes_of_string ''hello''), None)]
   \<and> issued world0 (snd (Handler_plain env_later empty_request world0)) =
       [(S3_CreateBucket ''your-prefix-20231114-221320'' ''ap-south-1'', None),
        (S3_PutObject ''your-prefix-20231114-221320'' ''upload-20231114-221320'' [], None)]"
proof -
  have differ: "time_Now env_ok 0 \<noteq> time_Now env_later 0"
    by (simp add: stub_defs)
  have first: "stamp env_ok (ticks world0) = stamp env_later (ticks world0)"
    by (simp add: stub_defs)
  have second: "stamp env_ok (Suc (ticks world0)) = stamp env_later (Suc (ticks world0))"
    by (simp add: stub_defs)
  have zst: "issued world0 (snd (Handler env_ok hello world0)) =
       [(S3_CreateBucket ''filename20231114-221320'' ''ap-south-1'', None),
        (S3_PutObject ''filename20231114-221320'' ''upload-20231114-221320.zst''
           (key @ zstd_magic @ bytes_of_string ''hello''), None)]"
    by (simp add: run_defs stub_defs compressAndEncrypt_def compressZstd_def encrypt_def)
  have plain: "issued world0 (snd (Handler_plain env_ok hello world0)) =
       [(S3_CreateBucket ''your-prefix-20231114-221320'' ''ap-south-1'', None),
        (S3_PutObject ''your-prefix-20231114-221320'' ''upload-20231114-221320''
           (bytes_of_string ''hello''), None)]"
    by (simp add: run_defs stub_defs)
  have later: "issued world0 (snd (Handler env_later empty_request world0)) =
       [(S3_CreateBucket ''filename20231114-221320'' ''ap-south-1'', None),
        (S3_PutObject ''filename20231114-221320'' ''upload-20231114-221320.zst''
           (key @ zstd_magic), None)]"
    by (simp add: run_defs stub_defs compressAndEncrypt_def compressZstd_def encrypt_def
                  bytes_of_string_def)
  have plain_later: "issued world0 (snd (Handler_plain env_later empty_request world0)) =
       [(S3_CreateBucket ''your-prefix-20231114-221320'' ''ap-south-1'', None),
        (S3_PutObject ''your-prefix-20231114-221320'' ''upload-20231114-221320'' [], None)]"
    by (simp add: run_defs stub_defs bytes_of_string_def)
  have mem1: "(S3_PutObject ''filename20231114-221320'' ''upload-20231114-221320.zst''
                 (key @ zstd_magic @ bytes_of_string ''hello''), None)
              \<in> set (issued world0 (snd (Handler env_ok hello world0)))"
    by (simp add: zst)
  have mem2: "(S3_PutObject ''filename20231114-221320'' ''upload-20231114-221320.zst''
                 (key @ zstd_magic), None)
              \<in> set (issued world0 (snd (Handler env_later empty_request world0)))"
    by (simp add: later)
  note names = same_second_naming_collision
                 [of env_ok world0 env_later world0 hello empty_request, OF first second]
  from names [THEN conjunct2, THEN conjunct1, rule_format, OF mem1 mem2]
       differ first second zst later plain plain_later
  show ?thesis
    by (simp add: world0_def)
qed

end
